theory Spec2Isabelle
  imports Main "HOL-Library.Sublist"
begin

section \<open>Exceptions and values\<close>

text \<open>
  Every \<open>raise\<close> of \<open>backend/security.py\<close> and \<open>backend/main.py\<close> is a value of
  \<open>exc\<close>. \<open>HTTPException status detail\<close> is FastAPI's exception; its detail is either
  a literal text, \<open>str(e)\<close> of a caught exception (kept symbolic: \<open>Str e\<close>), or an
  f-string \<open>prefix + str(e)\<close> (\<open>Fmt prefix e\<close>). \<open>Upstream\<close> stands for whatever an
  external collaborator (Firestore, PyPDFLoader, the text splitter, Pinecone, the LLM)
  raises.
\<close>

datatype exc =
    HTTPException nat detail
  | KeyError string
  | TypeError
  | RateLimitExceeded
  | Upstream string
and detail =
    Text string
  | Str exc
  | Fmt string exc

text \<open>
  A \<open>datetime\<close> is the number of microseconds since \<open>datetime.min\<close>;
  \<open>datetime.max\<close> is 9999-12-31 23:59:59.999999.
\<close>

type_synonym datetime = int

definition datetime_max :: datetime where
  "datetime_max = 315537897599999999"

definition timedelta_days :: "int \<Rightarrow> int" where
  "timedelta_days d = d * 86400000000"

text \<open>The value stored under \<open>"user_id"\<close>: a string, or Python's \<open>None\<close>.\<close>

datatype pyval = PyNone | PyStr string

text \<open>
  An entry of the process-local dict \<open>api_keys\<close>. The keys \<open>"user_id"\<close> and
  \<open>"expires_at"\<close> are absent from the entry that \<open>update_usage_metrics\<close> creates for
  an unknown key, hence the options.
\<close>

record key_entry =
  user_id :: "pyval option"
  daily_usage :: int
  last_reset :: datetime
  expires_at :: "datetime option"

text \<open>
  A document of the Firestore collection \<open>api_keys\<close>. A timestamp field is \<open>None\<close>
  when the document lacks it, in which case \<open>datetime.fromisoformat(None)\<close> raises
  \<open>TypeError\<close>; a present field holds what \<open>isoformat()\<close> wrote.
\<close>

record key_doc =
  doc_user_id :: pyval
  doc_daily_usage :: "int option"
  doc_last_reset :: "datetime option"
  doc_expires_at :: "datetime option"

text \<open>Documents and chunks of langchain: text plus a metadata dict.\<close>

datatype mval = MInt int | MStr string

record document =
  page_content :: string
  metadata :: "string \<rightharpoonup> mval"

datatype message = SystemMessage string | HumanMessage string

text \<open>
  The state the two modules share: the credential cache \<open>api_keys\<close>, the module
  global \<open>CURRENT_NAMESPACE\<close>, the Firestore collection \<open>api_keys\<close>, the Pinecone
  index (namespace to stored chunks; a namespace is listed by
  \<open>describe_index_stats\<close> exactly when it holds an entry), and the number of calls
  made to \<open>llm.invoke\<close> so far.
\<close>

record state =
  api_keys :: "string \<rightharpoonup> key_entry"
  CURRENT_NAMESPACE :: "string option"
  db :: "string \<rightharpoonup> key_doc"
  pinecone :: "string \<rightharpoonup> document list"
  llm_calls :: nat

text \<open>
  What the external collaborators do during one request. A field of type
  \<open>exc option\<close> is \<open>Some e\<close> when the call raises \<open>e\<close>.
\<close>

record collab =
  db_get_raises :: "exc option"
  db_update_raises :: "exc option"
  pdf_pages :: "string \<Rightarrow> nat option"
  loader :: "string \<Rightarrow> exc + document list"
  splitter :: "document list \<Rightarrow> exc + document list"
  stats_raises :: "exc option"
  delete_raises :: "exc option"
  add_raises :: "exc option"
  similarity_search :: "(string \<rightharpoonup> document list) \<Rightarrow> string \<Rightarrow> string \<Rightarrow> nat \<Rightarrow> exc + document list"
  llm_invoke :: "message list \<Rightarrow> exc + string"

text \<open>
  The readings of \<open>datetime.now()\<close> inside one call of \<open>update_usage_metrics\<close>, in
  source order: line 160 (new entry), line 164 (comparison), line 166 (reset).
\<close>

record readings =
  now_created :: datetime
  now_compared :: datetime
  now_reset :: datetime

record upload_file =
  filename :: string
  file_content :: string

record upload_response =
  message :: string
  namespace :: string

record question_response =
  answer :: string
  context_out :: "string option"

section \<open>backend/security.py\<close>

definition MAX_FILE_SIZE :: nat where
  "MAX_FILE_SIZE = 10 * 1024 * 1024"

definition MAX_PAGES :: nat where
  "MAX_PAGES = 50"

definition DAILY_QUOTA :: int where
  "DAILY_QUOTA = 50 * 1024 * 1024"

definition is_pdf :: "string \<Rightarrow> bool" where
  "is_pdf content = prefix ''%PDF-'' content"

text \<open>
  The body of the \<open>try\<close> of \<open>validate_api_key\<close> (lines 91-111): the entry to be
  cached, or the exception raised before the cache is written.
\<close>

definition validate_from_store :: "collab \<Rightarrow> datetime \<Rightarrow> state \<Rightarrow> string \<Rightarrow> exc + key_entry" where
  "validate_from_store c now s api_key =
     (case db_get_raises c of
        Some e \<Rightarrow> Inl e
      | None \<Rightarrow>
          (case db s api_key of
             None \<Rightarrow> Inl (HTTPException 401 (Text ''Invalid API key''))
           | Some key_data \<Rightarrow>
               (case doc_expires_at key_data of
                  None \<Rightarrow> Inl TypeError
                | Some expires \<Rightarrow>
                    if expires < now
                    then Inl (HTTPException 401 (Text ''API key expired''))
                    else
                      (case doc_last_reset key_data of
                         None \<Rightarrow> Inl TypeError
                       | Some reset \<Rightarrow>
                           Inr \<lparr>user_id = Some (doc_user_id key_data),
                                daily_usage = (case doc_daily_usage key_data of None \<Rightarrow> 0 | Some u \<Rightarrow> u),
                                last_reset = reset,
                                expires_at = Some expires\<rparr>))))"

definition validate_api_key :: "collab \<Rightarrow> datetime \<Rightarrow> state \<Rightarrow> string \<Rightarrow> exc + string \<times> state" where
  "validate_api_key c now s api_key =
     (case api_keys s api_key of
        Some entry \<Rightarrow>
          if (case expires_at entry of None \<Rightarrow> datetime_max | Some e \<Rightarrow> e) < now
          then Inl (HTTPException 401 (Text ''API key expired''))
          else Inr (api_key, s)
      | None \<Rightarrow>
          (case validate_from_store c now s api_key of
             Inl e \<Rightarrow> Inl (HTTPException 401 (Fmt ''Error validating API key: '' e))
           | Inr entry \<Rightarrow> Inr (api_key, s\<lparr>api_keys := (api_keys s)(api_key \<mapsto> entry)\<rparr>)))"

definition check_file_size :: "nat \<Rightarrow> exc + unit" where
  "check_file_size file_size =
     (if MAX_FILE_SIZE < file_size
      then Inl (HTTPException 400 (Text ''File size exceeds maximum limit of 10.0MB''))
      else Inr ())"

text \<open>
  The \<open>HTTPException\<close> for too many pages is raised inside the \<open>try\<close> and caught by
  its \<open>except Exception\<close>, so it leaves with the detail \<open>Invalid PDF file\<close> too.
\<close>

definition validate_pdf_content :: "collab \<Rightarrow> string \<Rightarrow> exc + unit" where
  "validate_pdf_content c content =
     (if is_pdf content
      then (case pdf_pages c content of
              None \<Rightarrow> Inl (HTTPException 400 (Text ''Invalid PDF file''))
            | Some n \<Rightarrow>
                if MAX_PAGES < n
                then Inl (HTTPException 400 (Text ''Invalid PDF file''))
                else Inr ())
      else Inl (HTTPException 400 (Text ''Invalid file type. Only PDF files are allowed.'')))"

text \<open>Lines 146-161: the entry for a key that is not cached.\<close>

definition load_entry :: "collab \<Rightarrow> readings \<Rightarrow> state \<Rightarrow> string \<Rightarrow> exc + state" where
  "load_entry c t s api_key =
     (case api_keys s api_key of
        Some _ \<Rightarrow> Inr s
      | None \<Rightarrow>
          (case db_get_raises c of
             Some e \<Rightarrow> Inl e
           | None \<Rightarrow>
               (case db s api_key of
                  Some key_data \<Rightarrow>
                    (case doc_last_reset key_data of
                       None \<Rightarrow> Inl TypeError
                     | Some reset \<Rightarrow>
                         (case doc_expires_at key_data of
                            None \<Rightarrow> Inl TypeError
                          | Some expires \<Rightarrow>
                              Inr (s\<lparr>api_keys := (api_keys s)(api_key \<mapsto>
                                     \<lparr>user_id = Some (doc_user_id key_data),
                                      daily_usage = (case doc_daily_usage key_data of None \<Rightarrow> 0 | Some u \<Rightarrow> u),
                                      last_reset = reset,
                                      expires_at = Some expires\<rparr>)\<rparr>)))
                | None \<Rightarrow>
                    Inr (s\<lparr>api_keys := (api_keys s)(api_key \<mapsto>
                           \<lparr>user_id = None, daily_usage = 0,
                            last_reset = now_created t, expires_at = None\<rparr>)\<rparr>))))"

text \<open>Lines 163-168 on a cached entry.\<close>

definition bump_entry :: "readings \<Rightarrow> key_entry \<Rightarrow> int \<Rightarrow> key_entry" where
  "bump_entry t entry bytes_processed =
     (let entry1 = (if timedelta_days 1 < now_compared t - last_reset entry
                    then entry\<lparr>daily_usage := 0, last_reset := now_reset t\<rparr>
                    else entry)
      in entry1\<lparr>daily_usage := daily_usage entry1 + bytes_processed\<rparr>)"

text \<open>
  Lines 170-177: Firestore's \<open>update\<close> raises on a missing document as well; every
  exception is logged and swallowed, and the collection is then unchanged.
\<close>

definition write_back :: "collab \<Rightarrow> (string \<rightharpoonup> key_doc) \<Rightarrow> string \<Rightarrow> key_entry \<Rightarrow> (string \<rightharpoonup> key_doc)" where
  "write_back c store api_key entry =
     (case db_update_raises c of
        Some _ \<Rightarrow> store
      | None \<Rightarrow>
          (case store api_key of
             None \<Rightarrow> store
           | Some d \<Rightarrow> store(api_key \<mapsto> d\<lparr>doc_daily_usage := Some (daily_usage entry),
                                           doc_last_reset := Some (last_reset entry)\<rparr>)))"

definition update_usage_metrics :: "collab \<Rightarrow> readings \<Rightarrow> state \<Rightarrow> string \<Rightarrow> int \<Rightarrow> exc + state" where
  "update_usage_metrics c t s api_key bytes_processed =
     (case load_entry c t s api_key of
        Inl e \<Rightarrow> Inl e
      | Inr s1 \<Rightarrow>
          (case api_keys s1 api_key of
             None \<Rightarrow> Inl (KeyError api_key)
           | Some entry \<Rightarrow>
               (let entry' = bump_entry t entry bytes_processed
                in Inr (s1\<lparr>api_keys := (api_keys s1)(api_key \<mapsto> entry'),
                          db := write_back c (db s1) api_key entry'\<rparr>))))"

definition check_quota :: "state \<Rightarrow> string \<Rightarrow> exc + unit" where
  "check_quota s api_key =
     (case api_keys s api_key of
        None \<Rightarrow> Inl (KeyError api_key)
      | Some entry \<Rightarrow>
          if DAILY_QUOTA < daily_usage entry
          then Inl (HTTPException 429 (Text ''Daily quota exceeded''))
          else Inr ())"

section \<open>backend/main.py\<close>

subsection \<open>Strings\<close>

text \<open>
  A \<open>char\<close> stands for one code point of a Python \<open>str\<close> (the first 256 of them).
  \<open>is_alnum\<close> is the class \<open>[a-zA-Z0-9]\<close> of the regular expression.
\<close>

definition is_alnum :: "char \<Rightarrow> bool" where
  "is_alnum ch =
     (let n = (of_char ch :: nat)
      in (97 \<le> n \<and> n \<le> 122) \<or> (65 \<le> n \<and> n \<le> 90) \<or> (48 \<le> n \<and> n \<le> 57))"

text \<open>\<open>name.replace('.pdf', '')\<close>: every occurrence, scanning from the left.\<close>

fun replace_pdf :: "string \<Rightarrow> string" where
  "replace_pdf (a # b # c # d # cs) =
     (if [a, b, c, d] = ''.pdf'' then replace_pdf cs else a # replace_pdf (b # c # d # cs))"
| "replace_pdf cs = cs"

definition sanitize_namespace :: "string \<Rightarrow> string" where
  "sanitize_namespace name =
     (let sanitized = map (\<lambda>ch. if is_alnum ch then ch else CHR ''_'') (replace_pdf name)
      in if 50 < length sanitized then take 50 sanitized else sanitized)"

text \<open>Decimal rendering of integers inside f-strings.\<close>

definition digit_char :: "nat \<Rightarrow> char" where
  "digit_char d = ''0123456789'' ! d"

fun str_nat :: "nat \<Rightarrow> string" where
  "str_nat n = (if n < 10 then [digit_char n] else str_nat (n div 10) @ [digit_char (n mod 10)])"

definition str_int :: "int \<Rightarrow> string" where
  "str_int i = (if i < 0 then CHR ''-'' # str_nat (nat (- i)) else str_nat (nat i))"

definition str_pyval :: "pyval \<Rightarrow> string" where
  "str_pyval v = (case v of PyNone \<Rightarrow> ''None'' | PyStr u \<Rightarrow> u)"

definition str_mval :: "mval \<Rightarrow> string" where
  "str_mval v = (case v of MInt i \<Rightarrow> str_int i | MStr u \<Rightarrow> u)"

fun join :: "string \<Rightarrow> string list \<Rightarrow> string" where
  "join sep [] = []"
| "join sep [x] = x"
| "join sep (x # y # ys) = x @ sep @ join sep (y # ys)"

subsection \<open>Pinecone\<close>

definition namespace_exists :: "collab \<Rightarrow> (string \<rightharpoonup> document list) \<Rightarrow> string \<Rightarrow> bool" where
  "namespace_exists c idx ns =
     (case stats_raises c of
        Some _ \<Rightarrow> False
      | None \<Rightarrow> (case idx ns of None \<Rightarrow> False | Some _ \<Rightarrow> True))"

text \<open>Lines 201-210: a failed delete is logged and the upload goes on.\<close>

definition clear_namespace :: "collab \<Rightarrow> (string \<rightharpoonup> document list) \<Rightarrow> string \<Rightarrow> (string \<rightharpoonup> document list)" where
  "clear_namespace c idx ns =
     (if namespace_exists c idx ns
      then (case delete_raises c of Some _ \<Rightarrow> idx | None \<Rightarrow> idx(ns := None))
      else idx)"

definition add_documents :: "(string \<rightharpoonup> document list) \<Rightarrow> string \<Rightarrow> document list \<Rightarrow> (string \<rightharpoonup> document list)" where
  "add_documents idx ns chunks =
     idx(ns \<mapsto> (case idx ns of None \<Rightarrow> [] | Some old \<Rightarrow> old) @ chunks)"

subsection \<open>upload\<close>

text \<open>Lines 191-196, for the chunk at position \<open>i\<close>.\<close>

definition tag_chunk :: "string \<Rightarrow> nat \<times> document \<Rightarrow> document" where
  "tag_chunk fname p =
     (case p of (i, chunk) \<Rightarrow>
        (let m1 = (metadata chunk)(''chunk_id'' \<mapsto> MInt (int i), ''filename'' \<mapsto> MStr fname);
             m2 = (case m1 ''page'' of None \<Rightarrow> m1(''page'' \<mapsto> MStr ''unknown'') | Some _ \<Rightarrow> m1)
         in chunk\<lparr>metadata := m2\<rparr>))"

definition tag_chunks :: "string \<Rightarrow> document list \<Rightarrow> document list" where
  "tag_chunks fname chunks = map (tag_chunk fname) (enumerate 0 chunks)"

definition namespace_of :: "key_entry \<Rightarrow> string \<Rightarrow> string" where
  "namespace_of entry fname =
     (case user_id entry of None \<Rightarrow> ''anonymous'' | Some v \<Rightarrow> str_pyval v)
       @ ''_'' @ sanitize_namespace fname"

definition upload_message :: "nat \<Rightarrow> string \<Rightarrow> string" where
  "upload_message n ns =
     ''PDF processed successfully. Created '' @ str_nat n @ '' chunks in namespace '' @ ns @ ''.''"

text \<open>
  The body of the \<open>try\<close> of \<open>upload_pdf\<close> (lines 155-228). The state is returned
  with the result, since what was written before an exception stays written. The
  exceptions modelled are those of the source's own checks and of the collaborators it
  calls for the document (loader, splitter, index stats, delete, add); reading the
  request body, the temporary file and \<open>pc.Index\<close> are taken to succeed. When
  \<open>add_documents\<close> raises, the index is left as the clear step left it.
\<close>

definition upload_pdf_body :: "collab \<Rightarrow> readings \<Rightarrow> state \<Rightarrow> upload_file \<Rightarrow> string \<Rightarrow> (exc + upload_response) \<times> state" where
  "upload_pdf_body c t s file api_key =
     (let content = file_content file in
      (case check_file_size (length content) of
         Inl e \<Rightarrow> (Inl e, s)
       | Inr _ \<Rightarrow>
      (case validate_pdf_content c content of
         Inl e \<Rightarrow> (Inl e, s)
       | Inr _ \<Rightarrow>
      (case check_quota s api_key of
         Inl e \<Rightarrow> (Inl e, s)
       | Inr _ \<Rightarrow>
      (case update_usage_metrics c t s api_key (int (length content)) of
         Inl e \<Rightarrow> (Inl e, s)
       | Inr s1 \<Rightarrow>
      (case api_keys s1 api_key of
         None \<Rightarrow> (Inl (KeyError api_key), s1)
       | Some entry \<Rightarrow>
      (let ns = namespace_of entry (filename file);
           s2 = s1\<lparr>CURRENT_NAMESPACE := Some ns\<rparr> in
      (case loader c content of
         Inl e \<Rightarrow> (Inl e, s2)
       | Inr docs \<Rightarrow>
      (case splitter c docs of
         Inl e \<Rightarrow> (Inl e, s2)
       | Inr split \<Rightarrow>
      (let chunks = tag_chunks (filename file) split;
           s3 = s2\<lparr>pinecone := clear_namespace c (pinecone s2) ns\<rparr> in
      (case add_raises c of
         Some e \<Rightarrow> (Inl e, s3)
       | None \<Rightarrow>
           (Inr \<lparr>message = upload_message (length chunks) ns, namespace = ns\<rparr>,
            s3\<lparr>pinecone := add_documents (pinecone s3) ns chunks\<rparr>))))))))))))"

text \<open>
  The two handlers shared by \<open>upload_pdf\<close> and \<open>ask_question\<close>:
  \<open>except RateLimitExceeded\<close>, then \<open>except Exception as e\<close>, which also catches
  an \<open>HTTPException\<close> raised inside the \<open>try\<close>.
\<close>

definition handle :: "exc \<Rightarrow> exc" where
  "handle e =
     (case e of
        RateLimitExceeded \<Rightarrow> HTTPException 429 (Text ''Rate limit exceeded. Please try again later.'')
      | _ \<Rightarrow> HTTPException 500 (Str e))"

definition upload_pdf :: "collab \<Rightarrow> readings \<Rightarrow> state \<Rightarrow> upload_file \<Rightarrow> string \<Rightarrow> (exc + upload_response) \<times> state" where
  "upload_pdf c t s file api_key =
     (case upload_pdf_body c t s file api_key of
        (Inl e, s') \<Rightarrow> (Inl (handle e), s')
      | (Inr r, s') \<Rightarrow> (Inr r, s'))"

subsection \<open>ask\<close>

definition fallback_answer :: string where
  "fallback_answer = ''I don't have enough information in the document to answer this question.''"

definition fallback_context :: string where
  "fallback_context = ''No relevant content found in the document.''"

definition metadata_str :: "document \<Rightarrow> string" where
  "metadata_str doc =
     ''[Document: '' @ (case metadata doc ''filename'' of None \<Rightarrow> ''Unknown'' | Some v \<Rightarrow> str_mval v)
       @ '', Page: '' @ (case metadata doc ''page'' of None \<Rightarrow> ''Unknown'' | Some v \<Rightarrow> str_mval v)
       @ '']''"

definition context_part :: "nat \<times> document \<Rightarrow> string" where
  "context_part p =
     (case p of (i, doc) \<Rightarrow>
        ''DOCUMENT SECTION '' @ str_nat (i + 1) @ '' '' @ metadata_str doc @ '':\<newline>'' @ page_content doc)"

definition build_context :: "document list \<Rightarrow> string" where
  "build_context results =
     ''\<newline>\<newline>'' @ join ''\<newline>\<newline>'' (map context_part (enumerate 0 results))"

definition system_message :: string where
  "system_message =
     ''\<newline>        You have access to a PDF document. Your task is to answer the user's questions strictly based on the content of the PDF.''
     @ ''\<newline>        If a question cannot be answered from the PDF, respond with: \"The answer is not found in the document.\"''
     @ ''\<newline>        Be accurate, concise, and reference relevant sections or quotes when possible. Wait for the user's question.''
     @ ''\<newline>        ''"

definition human_message :: "string \<Rightarrow> string \<Rightarrow> string" where
  "human_message ctx question =
     ''CONTEXT:\<newline>'' @ ctx @ ''\<newline>\<newline>QUESTION: '' @ question
     @ ''\<newline>\<newline>Remember: ONLY use information from the document provided. If the answer isn't in the document, say \"I don't have enough information in the document to answer this question.\"\<newline>''"

text \<open>
  The body of the \<open>try\<close> of \<open>ask_question\<close> (lines 250-313).
  \<open>not CURRENT_NAMESPACE\<close> holds for \<open>None\<close> and for the empty string.
\<close>

definition ask_question_body :: "collab \<Rightarrow> state \<Rightarrow> string \<Rightarrow> (exc + question_response) \<times> state" where
  "ask_question_body c s question =
     (case (case CURRENT_NAMESPACE s of None \<Rightarrow> None | Some ns \<Rightarrow> if ns = [] then None else Some ns) of
        None \<Rightarrow>
          (Inl (HTTPException 400 (Text ''No document has been uploaded yet. Please upload a PDF first.'')), s)
      | Some ns \<Rightarrow>
          (case similarity_search c (pinecone s) ns question 5 of
             Inl e \<Rightarrow> (Inl e, s)
           | Inr results \<Rightarrow>
               if results = []
               then (Inr \<lparr>answer = fallback_answer, context_out = Some fallback_context\<rparr>, s)
               else
                 (let ctx = build_context results;
                      messages = [SystemMessage system_message, HumanMessage (human_message ctx question)];
                      s1 = s\<lparr>llm_calls := llm_calls s + 1\<rparr>
                  in case llm_invoke c messages of
                       Inl e \<Rightarrow> (Inl e, s1)
                     | Inr content \<Rightarrow> (Inr \<lparr>answer = content, context_out = Some ctx\<rparr>, s1))))"

definition ask_question :: "collab \<Rightarrow> state \<Rightarrow> string \<Rightarrow> (exc + question_response) \<times> state" where
  "ask_question c s question =
     (case ask_question_body c s question of
        (Inl e, s') \<Rightarrow> (Inl (handle e), s')
      | (Inr r, s') \<Rightarrow> (Inr r, s'))"

section \<open>The namespace transform in the words of the specification\<close>

text \<open>
  Section 4.4 of the specification: strip the \<open>.pdf\<close> suffix, replace every
  non-alphanumeric character with \<open>_\<close>, truncate to 50 characters, prefix with the
  owner id (joined by \<open>_\<close>, as in the specification's example
  \<open>u1_My_Report__v2_\<close>). Used only to compare \<open>sanitize_namespace\<close> with it.
\<close>

definition spec_strip_suffix :: "string \<Rightarrow> string" where
  "spec_strip_suffix name = (if suffix ''.pdf'' name then take (length name - 4) name else name)"

definition spec_namespace :: "string \<Rightarrow> string \<Rightarrow> string" where
  "spec_namespace owner_id name =
     owner_id @ ''_'' @ take 50 (map (\<lambda>ch. if is_alnum ch then ch else CHR ''_'') (spec_strip_suffix name))"

section \<open>Example inputs\<close>

text \<open>
  Collaborators that all succeed, a clock, a cached key of owner \<open>u1\<close>, and a process
  whose current namespace \<open>u1_a\<close> holds one indexed chunk.
\<close>

definition quiet :: collab where
  "quiet = \<lparr>db_get_raises = None, db_update_raises = None,
     pdf_pages = (\<lambda>_. Some 2),
     loader = (\<lambda>content. Inr [\<lparr>page_content = content, metadata = [''page'' \<mapsto> MInt 0]\<rparr>]),
     splitter = (\<lambda>docs. Inr docs),
     stats_raises = None, delete_raises = None, add_raises = None,
     similarity_search = (\<lambda>idx ns q k. Inr (take k (case idx ns of None \<Rightarrow> [] | Some ds \<Rightarrow> ds))),
     llm_invoke = (\<lambda>_. Inr ''blue'')\<rparr>"

definition at_noon :: readings where
  "at_noon = \<lparr>now_created = 500, now_compared = 500, now_reset = 500\<rparr>"

definition entry_u1 :: key_entry where
  "entry_u1 = \<lparr>user_id = Some (PyStr ''u1''), daily_usage = 7, last_reset = 0, expires_at = Some 1000\<rparr>"

definition old_doc :: document where
  "old_doc = \<lparr>page_content = ''old'', metadata = Map.empty\<rparr>"

definition st_a :: state where
  "st_a = \<lparr>api_keys = [''k1'' \<mapsto> entry_u1], CURRENT_NAMESPACE = Some ''u1_a'',
     db = Map.empty, pinecone = [''u1_a'' \<mapsto> [old_doc]], llm_calls = 0\<rparr>"

definition file_b :: upload_file where
  "file_b = \<lparr>filename = ''b.pdf'', file_content = ''%PDF-1.4 sky''\<rparr>"

text \<open>
  The document loader is down; a payload that is not a PDF.
\<close>

definition loader_down :: collab where
  "loader_down = quiet\<lparr>loader := (\<lambda>_. Inl (Upstream ''PyPDFLoader''))\<rparr>"

definition file_txt :: upload_file where
  "file_txt = \<lparr>filename = ''notes.txt'', file_content = ''hello''\<rparr>"

text \<open>
  A key one byte over the quota whose window began ten days before the clock
  \<open>ten_days_on\<close>; a key exactly at the quota.
\<close>

definition entry_over :: key_entry where
  "entry_over = \<lparr>user_id = Some (PyStr ''u1''), daily_usage = 52428801, last_reset = 0,
     expires_at = Some 2592000000000\<rparr>"

definition st_over :: state where
  "st_over = st_a\<lparr>api_keys := [''k1'' \<mapsto> entry_over]\<rparr>"

definition ten_days_on :: readings where
  "ten_days_on = \<lparr>now_created = 864000000000, now_compared = 864000000000, now_reset = 864000000000\<rparr>"

definition entry_full :: key_entry where
  "entry_full = \<lparr>user_id = Some (PyStr ''u1''), daily_usage = 52428800, last_reset = 0,
     expires_at = Some 1000\<rparr>"

definition st_full :: state where
  "st_full = st_a\<lparr>api_keys := [''k1'' \<mapsto> entry_full]\<rparr>"



text \<open>
  An LLM that raises, a process whose current namespace holds nothing, and the entry
  that \<open>update_usage_metrics\<close> creates for an unknown key at \<open>at_noon\<close> with 12 bytes.
\<close>

definition llm_down :: "message list \<Rightarrow> exc + string" where
  "llm_down msgs = Inl (Upstream ''groq'')"

definition st_empty_ns :: state where
  "st_empty_ns = st_a\<lparr>CURRENT_NAMESPACE := Some ''u1_b''\<rparr>"

definition entry_degraded :: key_entry where
  "entry_degraded = \<lparr>user_id = None, daily_usage = 12, last_reset = 500, expires_at = None\<rparr>"

lemmas up_defs = upload_pdf_def upload_pdf_body_def check_file_size_def validate_pdf_content_def
  check_quota_def update_usage_metrics_def load_entry_def bump_entry_def write_back_def
  is_pdf_def MAX_FILE_SIZE_def MAX_PAGES_def DAILY_QUOTA_def timedelta_days_def
  namespace_of_def sanitize_namespace_def is_alnum_def str_pyval_def clear_namespace_def
  namespace_exists_def add_documents_def tag_chunks_def tag_chunk_def upload_message_def handle_def
  digit_char_def Let_def

lemmas fix_defs = quiet_def at_noon_def entry_u1_def old_doc_def st_a_def file_b_def

lemmas ns_defs = namespace_of_def sanitize_namespace_def is_alnum_def str_pyval_def Let_def
  spec_namespace_def spec_strip_suffix_def

section \<open>The upload pipeline, step by step\<close>

lemma check_quota_Inr:
  "check_quota s k = Inr u \<longleftrightarrow> (\<exists>entry. api_keys s k = Some entry \<and> daily_usage entry \<le> DAILY_QUOTA)"
  by (auto simp: check_quota_def split: option.splits)

lemma check_quota_Inl:
  "check_quota s k = Inl e \<longleftrightarrow>
     (api_keys s k = None \<and> e = KeyError k) \<or>
     (\<exists>entry. api_keys s k = Some entry \<and> DAILY_QUOTA < daily_usage entry
        \<and> e = HTTPException 429 (Text ''Daily quota exceeded''))"
  by (auto simp: check_quota_def split: option.splits)

lemma update_usage_metrics_cached:
  "api_keys s k = Some entry \<Longrightarrow>
   update_usage_metrics c t s k n =
     Inr (s\<lparr>api_keys := (api_keys s)(k \<mapsto> bump_entry t entry n),
            db := write_back c (db s) k (bump_entry t entry n)\<rparr>)"
  by (simp add: update_usage_metrics_def load_entry_def Let_def)

lemma bump_entry_fields:
  "user_id (bump_entry t entry n) = user_id entry"
  "expires_at (bump_entry t entry n) = expires_at entry"
  "daily_usage (bump_entry t entry n) =
     (if timedelta_days 1 < now_compared t - last_reset entry then 0 else daily_usage entry) + n"
  "last_reset (bump_entry t entry n) =
     (if timedelta_days 1 < now_compared t - last_reset entry then now_reset t else last_reset entry)"
  by (simp_all add: bump_entry_def Let_def)

lemma namespace_of_bump_entry:
  "namespace_of (bump_entry t entry n) fname = namespace_of entry fname"
  by (simp add: namespace_of_def bump_entry_fields)

lemma upload_pdf_body_rejected:
  "check_file_size (length (file_content file)) = Inl e \<Longrightarrow>
     upload_pdf_body c t s file k = (Inl e, s)"
  "check_file_size (length (file_content file)) = Inr () \<Longrightarrow>
   validate_pdf_content c (file_content file) = Inl e \<Longrightarrow>
     upload_pdf_body c t s file k = (Inl e, s)"
  "check_file_size (length (file_content file)) = Inr () \<Longrightarrow>
   validate_pdf_content c (file_content file) = Inr () \<Longrightarrow>
   check_quota s k = Inl e \<Longrightarrow>
     upload_pdf_body c t s file k = (Inl e, s)"
  by (simp_all add: upload_pdf_body_def Let_def)

lemma upload_pdf_body_admitted:
  assumes "check_file_size (length (file_content file)) = Inr ()"
    and "validate_pdf_content c (file_content file) = Inr ()"
    and "api_keys s k = Some entry"
    and "daily_usage entry \<le> DAILY_QUOTA"
  shows "upload_pdf_body c t s file k =
     (let entry' = bump_entry t entry (int (length (file_content file)));
          ns = namespace_of entry (filename file);
          s2 = s\<lparr>api_keys := (api_keys s)(k \<mapsto> entry'),
                 db := write_back c (db s) k entry',
                 CURRENT_NAMESPACE := Some ns\<rparr>
      in (case loader c (file_content file) of
            Inl e \<Rightarrow> (Inl e, s2)
          | Inr docs \<Rightarrow>
              (case splitter c docs of
                 Inl e \<Rightarrow> (Inl e, s2)
               | Inr split \<Rightarrow>
                   (case add_raises c of
                      Some e \<Rightarrow> (Inl e, s2\<lparr>pinecone := clear_namespace c (pinecone s) ns\<rparr>)
                    | None \<Rightarrow>
                        (Inr \<lparr>message = upload_message (length (tag_chunks (filename file) split)) ns,
                              namespace = ns\<rparr>,
                         s2\<lparr>pinecone := add_documents (clear_namespace c (pinecone s) ns) ns
                                          (tag_chunks (filename file) split)\<rparr>)))))"
proof -
  have q: "check_quota s k = Inr ()"
    using assms(3,4) by (simp add: check_quota_Inr)
  show ?thesis
    using assms(1,2) q
    by (simp add: upload_pdf_body_def Let_def update_usage_metrics_cached [OF assms(3)]
          namespace_of_bump_entry split: sum.splits option.splits)
qed

lemma clear_namespace_other:
  "n \<noteq> ns \<Longrightarrow> clear_namespace c idx ns n = idx n"
  by (simp add: clear_namespace_def split: option.splits)

lemma clear_namespace_target:
  "clear_namespace c idx ns ns =
     (if stats_raises c = None \<and> delete_raises c = None then None else idx ns)"
  by (auto simp: clear_namespace_def namespace_exists_def split: option.splits)

lemma upload_pdf_admitted_entry:
  assumes "check_file_size (length (file_content file)) = Inr ()"
    and "validate_pdf_content c (file_content file) = Inr ()"
    and "api_keys s k = Some entry"
    and "daily_usage entry \<le> DAILY_QUOTA"
  shows "api_keys (snd (upload_pdf c t s file k)) k =
           Some (bump_entry t entry (int (length (file_content file))))"
  by (simp add: upload_pdf_def upload_pdf_body_admitted [OF assms] Let_def
        split: sum.splits option.splits)

text \<open>
  Every exception that leaves \<open>upload_pdf\<close> or \<open>ask_question\<close> has status 500,
  or 429 with the rate-limit text: the handler rewraps whatever the body raised.
\<close>

lemma handle_status:
  "(\<exists>d. handle e = HTTPException 500 d)
   \<or> handle e = HTTPException 429 (Text ''Rate limit exceeded. Please try again later.'')"
  by (cases e) (simp_all add: handle_def)

text \<open>
  Each of the three payload violations leaves \<open>upload_pdf\<close> with status 500 around
  the 400 raised by the check, and with the state as it was.
\<close>

lemma upload_pdf_invalid_payload:
  assumes "MAX_FILE_SIZE < length (file_content file)
     \<or> \<not> is_pdf (file_content file)
     \<or> (\<exists>n. pdf_pages c (file_content file) = Some n \<and> MAX_PAGES < n)"
  shows "\<exists>d. upload_pdf c t s file api_key = (Inl (HTTPException 500 (Str (HTTPException 400 d))), s)"
proof (cases "check_file_size (length (file_content file))")
  case (Inl e)
  then show ?thesis
    by (auto simp: upload_pdf_def upload_pdf_body_rejected(1) [OF Inl] handle_def check_file_size_def
        split: if_splits)
next
  case (Inr u)
  then have size_ok: "check_file_size (length (file_content file)) = Inr ()" by simp
  then have "\<not> MAX_FILE_SIZE < length (file_content file)"
    by (auto simp: check_file_size_def split: if_splits)
  with assms have "\<exists>d. validate_pdf_content c (file_content file) = Inl (HTTPException 400 d)"
    by (auto simp: validate_pdf_content_def)
  then show ?thesis
    by (auto simp: upload_pdf_def upload_pdf_body_rejected(2) [OF size_ok] handle_def)
qed

text \<open>
  Once a request has pushed the counter over the quota, the next upload of the same
  key is refused, whatever the clock reads.
\<close>

lemma upload_pdf_overshoot_then_rejected:
  assumes "check_file_size (length (file_content file)) = Inr ()"
    and "validate_pdf_content c (file_content file) = Inr ()"
    and "api_keys s k = Some entry"
    and "daily_usage entry \<le> DAILY_QUOTA"
    and "DAILY_QUOTA < daily_usage (bump_entry t entry (int (length (file_content file))))"
    and "check_file_size (length (file_content file')) = Inr ()"
    and "validate_pdf_content c' (file_content file') = Inr ()"
  shows "upload_pdf c' t' (snd (upload_pdf c t s file k)) file' k =
     (Inl (HTTPException 500 (Str (HTTPException 429 (Text ''Daily quota exceeded'')))),
      snd (upload_pdf c t s file k))"
proof -
  have "check_quota (snd (upload_pdf c t s file k)) k =
      Inl (HTTPException 429 (Text ''Daily quota exceeded''))"
    using assms(5) by (simp add: check_quota_def upload_pdf_admitted_entry [OF assms(1-4)])
  then show ?thesis
    by (simp add: upload_pdf_def upload_pdf_body_rejected(3) [OF assms(6,7)] handle_def)
qed

section \<open>Queries\<close>

lemma ask_question_upstream_failure:
  "CURRENT_NAMESPACE s = Some ns \<Longrightarrow> ns \<noteq> [] \<Longrightarrow>
   similarity_search c (pinecone s) ns question 5 = Inl (Upstream x) \<Longrightarrow>
   ask_question c s question = (Inl (HTTPException 500 (Str (Upstream x))), s)"
  by (simp add: ask_question_def ask_question_body_def handle_def)

lemma ask_question_invokes_llm:
  assumes "CURRENT_NAMESPACE s = Some ns" and "ns \<noteq> []"
    and "similarity_search c (pinecone s) ns question 5 = Inr results" and "results \<noteq> []"
  shows "llm_calls (snd (ask_question c s question)) = llm_calls s + 1"
  using assms
  by (simp add: ask_question_def ask_question_body_def Let_def split: sum.splits)

section \<open>Credentials\<close>

lemma validate_api_key_status:
  "validate_api_key c now s k = Inl e \<Longrightarrow> \<exists>d. e = HTTPException 401 d"
  by (auto simp: validate_api_key_def split: option.splits if_splits sum.splits)

lemma update_usage_metrics_keeps_expiry:
  "api_keys s k = Some entry \<Longrightarrow> update_usage_metrics c t s k n = Inr s' \<Longrightarrow>
   \<exists>entry'. api_keys s' k = Some entry' \<and> expires_at entry' = expires_at entry"
  by (auto simp: update_usage_metrics_cached bump_entry_fields)

section \<open>Namespaces\<close>

lemma sanitize_namespace_take:
  "sanitize_namespace name = take 50 (map (\<lambda>ch. if is_alnum ch then ch else CHR ''_'') (replace_pdf name))"
  by (simp add: sanitize_namespace_def Let_def)

lemma length_sanitize_namespace: "length (sanitize_namespace name) \<le> 50"
  by (simp add: sanitize_namespace_take)

lemma sanitize_namespace_example:
  "namespace_of entry_u1 ''My Report (v2).pdf'' = ''u1_My_Report__v2_''
   \<and> spec_namespace ''u1'' ''My Report (v2).pdf'' = ''u1_My_Report__v2_''"
  by (simp add: ns_defs entry_u1_def suffix_def)

lemma sanitize_namespace_collision:
  "take 50 (map (\<lambda>ch. if is_alnum ch then ch else CHR ''_'') (replace_pdf name1)) =
   take 50 (map (\<lambda>ch. if is_alnum ch then ch else CHR ''_'') (replace_pdf name2)) \<Longrightarrow>
   namespace_of entry name1 = namespace_of entry name2"
  by (simp add: namespace_of_def sanitize_namespace_take)

lemma replace_pdf_absent:
  "\<not> sublist ''.pdf'' name \<Longrightarrow> replace_pdf name = name"
proof (induction name rule: replace_pdf.induct)
  case (1 a b c d cs)
  have ne: "[a, b, c, d] \<noteq> ''.pdf''"
  proof
    assume "[a, b, c, d] = ''.pdf''"
    then have "a # b # c # d # cs = [] @ ''.pdf'' @ cs" by simp
    then have "sublist ''.pdf'' (a # b # c # d # cs)" unfolding sublist_def by blast
    with 1(3) show False by blast
  qed
  have rest: "\<not> sublist ''.pdf'' (b # c # d # cs)"
    using 1(3) unfolding sublist_Cons_right [of _ a] by blast
  have "replace_pdf (a # b # c # d # cs) = a # replace_pdf (b # c # d # cs)"
    using ne by (simp only: replace_pdf.simps if_False)
  then show ?case
    using 1(2) [OF ne rest] by (simp only:)
qed simp_all

lemma replace_pdf_suffix_only:
  "\<not> sublist ''.pdf'' (base @ ''.pd'') \<Longrightarrow> replace_pdf (base @ ''.pdf'') = base"
proof (induction base)
  case Nil
  then show ?case by simp
next
  case (Cons x xs)
  have tl: "\<not> sublist ''.pdf'' (xs @ ''.pd'')"
    using Cons.prems unfolding append_Cons sublist_Cons_right [of _ x] by blast
  have hd: "\<not> prefix ''.pdf'' (x # xs @ ''.pd'')"
    using Cons.prems unfolding append_Cons sublist_Cons_right [of _ x] by blast
  obtain a b c cs where shape: "xs @ ''.pdf'' = a # b # c # cs"
    by (cases xs; cases "tl xs"; cases "tl (tl xs)") auto
  have t3: "take 3 (xs @ ''.pd'') = [a, b, c]"
  proof -
    have "take 3 (xs @ ''.pd'') = take 3 (xs @ ''.pdf'')"
      by (cases xs; cases "tl xs"; cases "tl (tl xs)") auto
    then show ?thesis by (simp only: shape) simp
  qed
  have ne: "[x, a, b, c] \<noteq> ''.pdf''"
  proof
    assume eq: "[x, a, b, c] = ''.pdf''"
    have "prefix (take 3 (xs @ ''.pd'')) (xs @ ''.pd'')" by (rule take_is_prefix)
    then have "prefix [a, b, c] (xs @ ''.pd'')" by (simp only: t3)
    then have "prefix (x # [a, b, c]) (x # xs @ ''.pd'')" by (simp only: Cons_prefix_Cons)
    then have "prefix ''.pdf'' (x # xs @ ''.pd'')" by (simp only: eq)
    with hd show False by blast
  qed
  have "replace_pdf (x # a # b # c # cs) = x # replace_pdf (a # b # c # cs)"
    using ne by (simp only: replace_pdf.simps if_False)
  then have "replace_pdf ((x # xs) @ ''.pdf'') = x # replace_pdf (xs @ ''.pdf'')"
    by (simp only: append_Cons shape)
  then show ?case
    by (simp only: Cons.IH [OF tl])
qed

lemma namespace_agrees_without_pdf:
  assumes "\<not> sublist ''.pdf'' name" and "user_id entry = Some (PyStr owner)"
  shows "namespace_of entry name = spec_namespace owner name"
proof -
  have "\<not> suffix ''.pdf'' name"
    using assms(1) suffix_imp_sublist by blast
  then show ?thesis
    by (simp add: namespace_of_def spec_namespace_def spec_strip_suffix_def str_pyval_def
          sanitize_namespace_take replace_pdf_absent [OF assms(1)] assms(2))
qed

lemma namespace_agrees_suffix_only:
  assumes "\<not> sublist ''.pdf'' (base @ ''.pd'')" and "user_id entry = Some (PyStr owner)"
  shows "namespace_of entry (base @ ''.pdf'') = spec_namespace owner (base @ ''.pdf'')"
  by (simp add: namespace_of_def spec_namespace_def spec_strip_suffix_def str_pyval_def
        sanitize_namespace_take replace_pdf_suffix_only [OF assms(1)] assms(2) suffix_def)

section \<open>Claims\<close>

subsection \<open>C1: what an upload does to the namespace pointer and the index\<close>

text \<open>
  C1, as stated, fails: the namespace that \<open>upload_pdf\<close> clears is the one it has
  just assigned to \<open>CURRENT_NAMESPACE\<close> (lines 168 and 202-204), not the one the
  pointer held before. Here the pointer was \<open>u1_a\<close>, the upload of \<open>b.pdf\<close>
  succeeds and moves it to \<open>u1_b\<close>, and the chunk stored under \<open>u1_a\<close> is still
  in the index.
\<close>

theorem upload_pdf_keeps_prior_namespace:
  "CURRENT_NAMESPACE st_a = Some ''u1_a''
   \<and> fst (upload_pdf quiet at_noon st_a file_b ''k1'') =
       Inr \<lparr>message = ''PDF processed successfully. Created 1 chunks in namespace u1_b.'',
            namespace = ''u1_b''\<rparr>
   \<and> CURRENT_NAMESPACE (snd (upload_pdf quiet at_noon st_a file_b ''k1'')) = Some ''u1_b''
   \<and> pinecone (snd (upload_pdf quiet at_noon st_a file_b ''k1'')) ''u1_a'' = Some [old_doc]"
  by (simp add: up_defs fix_defs)

text \<open>
  C1, amended: a successful upload sets the pointer to the new document's namespace
  (the owner of the key, \<open>_\<close>, the sanitized filename). What the index held under
  that same namespace is cleared when the stats call and the delete call both
  succeed, and kept otherwise; the new chunks are added to it. Every other
  namespace, the prior current one included, is left as it was.
\<close>

theorem upload_pdf_clears_target_namespace:
  assumes "fst (upload_pdf c t s file api_key) = Inr r"
  shows "CURRENT_NAMESPACE (snd (upload_pdf c t s file api_key)) = Some (namespace r)
    \<and> (\<exists>entry. api_keys s api_key = Some entry \<and> namespace r = namespace_of entry (filename file))
    \<and> (\<exists>docs split. loader c (file_content file) = Inr docs \<and> splitter c docs = Inr split
          \<and> pinecone (snd (upload_pdf c t s file api_key)) (namespace r) =
              Some ((if stats_raises c = None \<and> delete_raises c = None then []
                     else (case pinecone s (namespace r) of None \<Rightarrow> [] | Some old \<Rightarrow> old))
                    @ tag_chunks (filename file) split))
    \<and> (\<forall>n. n \<noteq> namespace r \<longrightarrow> pinecone (snd (upload_pdf c t s file api_key)) n = pinecone s n)"
proof -
  from assms obtain s' where body: "upload_pdf_body c t s file api_key = (Inr r, s')"
    by (auto simp: upload_pdf_def split: prod.splits sum.splits)
  have size_ok: "check_file_size (length (file_content file)) = Inr ()"
    using body
    by (cases "check_file_size (length (file_content file))") (auto simp: upload_pdf_body_rejected(1))
  have pdf_ok: "validate_pdf_content c (file_content file) = Inr ()"
    using body
    by (cases "validate_pdf_content c (file_content file)")
       (auto simp: upload_pdf_body_rejected(2) [OF size_ok])
  have "check_quota s api_key = Inr ()"
    using body
    by (cases "check_quota s api_key")
       (auto simp: upload_pdf_body_rejected(3) [OF size_ok pdf_ok])
  then obtain entry where entry: "api_keys s api_key = Some entry" "daily_usage entry \<le> DAILY_QUOTA"
    by (auto simp: check_quota_Inr)
  note shape = upload_pdf_body_admitted [OF size_ok pdf_ok entry, of t]
  from body obtain docs split where
    run: "loader c (file_content file) = Inr docs" "splitter c docs = Inr split" "add_raises c = None"
    by (auto simp: shape Let_def split: sum.splits option.splits)
  have up: "upload_pdf c t s file api_key = (Inr r, s')"
    using body by (simp add: upload_pdf_def)
  have r: "namespace r = namespace_of entry (filename file)"
    using body run by (auto simp: shape Let_def)
  have s': "CURRENT_NAMESPACE s' = Some (namespace r)"
    "pinecone s' = add_documents (clear_namespace c (pinecone s) (namespace r)) (namespace r)
        (tag_chunks (filename file) split)"
    using body run by (auto simp: shape Let_def)
  have other: "\<forall>n. n \<noteq> namespace r \<longrightarrow> pinecone s' n = pinecone s n"
    by (simp add: s' add_documents_def clear_namespace_other)
  have target: "pinecone s' (namespace r) =
      Some ((if stats_raises c = None \<and> delete_raises c = None then []
             else (case pinecone s (namespace r) of None \<Rightarrow> [] | Some old \<Rightarrow> old))
            @ tag_chunks (filename file) split)"
    by (simp add: s' add_documents_def clear_namespace_target)
  show ?thesis
    using entry(1) r run(1,2) s'(1) other target by (simp add: up)
qed

text \<open>
  The amended C1 at a re-upload of \<open>a.pdf\<close>: the old chunk under \<open>u1_a\<close> is
  replaced by the new one, and the namespace \<open>zz\<close> is untouched.
\<close>

theorem upload_pdf_clears_target_namespace_witness:
  "fst (upload_pdf quiet at_noon st_a \<lparr>filename = ''a.pdf'', file_content = ''%PDF-1.4 sea''\<rparr> ''k1'') =
       Inr \<lparr>message = ''PDF processed successfully. Created 1 chunks in namespace u1_a.'',
            namespace = ''u1_a''\<rparr>
   \<and> CURRENT_NAMESPACE (snd (upload_pdf quiet at_noon st_a \<lparr>filename = ''a.pdf'', file_content = ''%PDF-1.4 sea''\<rparr> ''k1'')) = Some ''u1_a''
   \<and> pinecone st_a ''u1_a'' = Some [old_doc]
   \<and> pinecone (snd (upload_pdf quiet at_noon st_a \<lparr>filename = ''a.pdf'', file_content = ''%PDF-1.4 sea''\<rparr> ''k1'')) ''u1_a'' =
       Some (tag_chunks ''a.pdf'' [\<lparr>page_content = ''%PDF-1.4 sea'', metadata = [''page'' \<mapsto> MInt 0]\<rparr>])
   \<and> ''zz'' \<noteq> ''u1_a''
   \<and> pinecone (snd (upload_pdf quiet at_noon st_a \<lparr>filename = ''a.pdf'', file_content = ''%PDF-1.4 sea''\<rparr> ''k1'')) ''zz'' = pinecone st_a ''zz''"
proof -
  have ok: "fst (upload_pdf quiet at_noon st_a \<lparr>filename = ''a.pdf'', file_content = ''%PDF-1.4 sea''\<rparr> ''k1'') =
       Inr \<lparr>message = ''PDF processed successfully. Created 1 chunks in namespace u1_a.'',
            namespace = ''u1_a''\<rparr>"
    by (simp add: up_defs fix_defs)
  have q: "stats_raises quiet = None" "delete_raises quiet = None"
    "loader quiet ''%PDF-1.4 sea'' = Inr [\<lparr>page_content = ''%PDF-1.4 sea'', metadata = [''page'' \<mapsto> MInt 0]\<rparr>]"
    "splitter quiet = Inr"
    by (simp_all add: quiet_def fun_eq_iff)
  have p: "pinecone st_a ''u1_a'' = Some [old_doc]" "pinecone st_a ''zz'' = None"
    by (simp_all add: st_a_def)
  show ?thesis
    using ok upload_pdf_clears_target_namespace [OF ok]
    by (simp add: q p)
qed

subsection \<open>C2: when usage is recorded\<close>

text \<open>
  C2, as stated, fails: \<open>update_usage_metrics\<close> is called on line 163, right after
  the quota check and before the document is loaded. Here the loader raises, the upload
  fails, and the counter of the key has gone from 7 to 19 (the payload has 12 bytes).
\<close>

theorem failed_extraction_still_charged:
  "loader loader_down (file_content file_b) = Inl (Upstream ''PyPDFLoader'')
   \<and> fst (upload_pdf loader_down at_noon st_a file_b ''k1'') = Inl (HTTPException 500 (Str (Upstream ''PyPDFLoader'')))
   \<and> map_option daily_usage (api_keys st_a ''k1'') = Some 7
   \<and> map_option daily_usage (api_keys (snd (upload_pdf loader_down at_noon st_a file_b ''k1'')) ''k1'') = Some 19"
  by (simp add: up_defs fix_defs loader_down_def)

text \<open>
  C2, amended: usage is recorded right after the quota check, before extraction.
  An upload that passed validation and the quota check and then fails during
  extraction, chunking or index submission leaves with the handler's exception, and
  the counter of its key is the old one (zero after a day rollover) plus the payload's
  bytes. An upload refused by the size check, the PDF check or the quota check leaves
  with the handler's exception and the state, usage included, as it was.
\<close>

theorem upload_pdf_records_usage_before_extraction:
  "(check_file_size (length (file_content file)) = Inr ()
      \<and> validate_pdf_content c (file_content file) = Inr ()
      \<and> api_keys s api_key = Some entry
      \<and> daily_usage entry \<le> DAILY_QUOTA
      \<and> (loader c (file_content file) = Inl e
           \<or> (\<exists>docs. loader c (file_content file) = Inr docs
                 \<and> (splitter c docs = Inl e
                      \<or> (\<exists>split. splitter c docs = Inr split \<and> add_raises c = Some e)))) \<longrightarrow>
      fst (upload_pdf c t s file api_key) = Inl (handle e)
      \<and> map_option daily_usage (api_keys (snd (upload_pdf c t s file api_key)) api_key) =
          Some ((if timedelta_days 1 < now_compared t - last_reset entry then 0 else daily_usage entry)
                + int (length (file_content file))))
   \<and> (check_file_size (length (file_content file)) = Inl x
        \<or> validate_pdf_content c (file_content file) = Inl x
        \<or> check_quota s api_key = Inl x \<longrightarrow>
      (\<exists>y. fst (upload_pdf c t s file api_key) = Inl (handle y))
      \<and> snd (upload_pdf c t s file api_key) = s)"
proof -
  have charged: "fst (upload_pdf c t s file api_key) = Inl (handle e)
      \<and> map_option daily_usage (api_keys (snd (upload_pdf c t s file api_key)) api_key) =
          Some ((if timedelta_days 1 < now_compared t - last_reset entry then 0 else daily_usage entry)
                + int (length (file_content file)))"
    if adm: "check_file_size (length (file_content file)) = Inr ()"
      "validate_pdf_content c (file_content file) = Inr ()"
      "api_keys s api_key = Some entry" "daily_usage entry \<le> DAILY_QUOTA"
    and fails: "loader c (file_content file) = Inl e
           \<or> (\<exists>docs. loader c (file_content file) = Inr docs
                 \<and> (splitter c docs = Inl e
                      \<or> (\<exists>split. splitter c docs = Inr split \<and> add_raises c = Some e)))"
    using fails
    by (auto simp: upload_pdf_def upload_pdf_body_admitted [OF adm] Let_def bump_entry_fields)
  have refused: "(\<exists>y. fst (upload_pdf c t s file api_key) = Inl (handle y))
      \<and> snd (upload_pdf c t s file api_key) = s"
    if rej: "check_file_size (length (file_content file)) = Inl x
        \<or> validate_pdf_content c (file_content file) = Inl x
        \<or> check_quota s api_key = Inl x"
  proof (cases "check_file_size (length (file_content file))")
    case (Inl y)
    then show ?thesis
      by (auto simp: upload_pdf_def upload_pdf_body_rejected(1) [OF Inl])
  next
    case (Inr u)
    then have size_ok: "check_file_size (length (file_content file)) = Inr ()" by simp
    show ?thesis
    proof (cases "validate_pdf_content c (file_content file)")
      case (Inl y)
      then show ?thesis
        by (auto simp: upload_pdf_def upload_pdf_body_rejected(2) [OF size_ok Inl])
    next
      case (Inr u')
      then have pdf_ok: "validate_pdf_content c (file_content file) = Inr ()" by simp
      from rej size_ok pdf_ok have q: "check_quota s api_key = Inl x" by simp
      show ?thesis
        by (auto simp: upload_pdf_def upload_pdf_body_rejected(3) [OF size_ok pdf_ok q])
    qed
  qed
  show ?thesis
    using charged refused by blast
qed

text \<open>
  The amended C2 at the failing loader above, at a payload that is not a PDF, and at a
  key over the quota.
\<close>

theorem upload_pdf_records_usage_before_extraction_witness:
  "check_file_size (length (file_content file_b)) = Inr ()
   \<and> validate_pdf_content loader_down (file_content file_b) = Inr ()
   \<and> api_keys st_a ''k1'' = Some entry_u1
   \<and> daily_usage entry_u1 \<le> DAILY_QUOTA
   \<and> loader loader_down (file_content file_b) = Inl (Upstream ''PyPDFLoader'')
   \<and> fst (upload_pdf loader_down at_noon st_a file_b ''k1'') = Inl (HTTPException 500 (Str (Upstream ''PyPDFLoader'')))
   \<and> map_option daily_usage (api_keys (snd (upload_pdf loader_down at_noon st_a file_b ''k1'')) ''k1'') = Some (7 + 12)
   \<and> validate_pdf_content quiet (file_content file_txt) =
        Inl (HTTPException 400 (Text ''Invalid file type. Only PDF files are allowed.''))
   \<and> snd (upload_pdf quiet at_noon st_a file_txt ''k1'') = st_a
   \<and> map_option daily_usage (api_keys (snd (upload_pdf quiet at_noon st_a file_txt ''k1'')) ''k1'') = Some 7
   \<and> check_quota st_over ''k1'' = Inl (HTTPException 429 (Text ''Daily quota exceeded''))
   \<and> snd (upload_pdf quiet at_noon st_over file_b ''k1'') = st_over"
proof -
  have h: "check_file_size (length (file_content file_b)) = Inr ()"
    "validate_pdf_content loader_down (file_content file_b) = Inr ()"
    "api_keys st_a ''k1'' = Some entry_u1"
    "daily_usage entry_u1 \<le> DAILY_QUOTA"
    by (simp_all add: check_file_size_def validate_pdf_content_def is_pdf_def MAX_FILE_SIZE_def
          MAX_PAGES_def DAILY_QUOTA_def fix_defs loader_down_def)
  have l: "loader loader_down (file_content file_b) = Inl (Upstream ''PyPDFLoader'')"
    by (simp add: loader_down_def)
  have d: "last_reset entry_u1 = 0" "daily_usage entry_u1 = 7" "now_compared at_noon = 500"
    "length (file_content file_b) = 12"
    by (simp_all add: fix_defs)
  have v: "validate_pdf_content quiet (file_content file_txt) =
        Inl (HTTPException 400 (Text ''Invalid file type. Only PDF files are allowed.''))"
    by (simp add: validate_pdf_content_def is_pdf_def file_txt_def)
  have q: "check_quota st_over ''k1'' = Inl (HTTPException 429 (Text ''Daily quota exceeded''))"
    by (simp add: check_quota_def st_over_def entry_over_def DAILY_QUOTA_def)
  have k: "map_option daily_usage (api_keys st_a ''k1'') = Some 7"
    by (simp add: st_a_def entry_u1_def)
  show ?thesis
    using h l v q
      upload_pdf_records_usage_before_extraction
        [of file_b loader_down st_a "''k1''" entry_u1 "Upstream ''PyPDFLoader''" at_noon]
      upload_pdf_records_usage_before_extraction
        [of file_txt quiet st_a "''k1''" _ _ at_noon
           "HTTPException 400 (Text ''Invalid file type. Only PDF files are allowed.'')"]
      upload_pdf_records_usage_before_extraction
        [of file_b quiet st_over "''k1''" _ _ at_noon
           "HTTPException 429 (Text ''Daily quota exceeded'')"]
    by (simp add: d k handle_def timedelta_days_def)
qed

subsection \<open>C3: the error of an invalid payload\<close>

text \<open>
  C3 at a payload that is not a PDF: \<open>validate_pdf_content\<close> raises status 400, the
  \<open>except Exception\<close> of \<open>upload_pdf\<close> catches it and raises status 500, the status
  a failure of the document loader gets as well. The state is unchanged.
\<close>

theorem upload_pdf_invalid_payload_status:
  "upload_pdf quiet at_noon st_a file_txt ''k1'' =
     (Inl (HTTPException 500 (Str (HTTPException 400 (Text ''Invalid file type. Only PDF files are allowed.'')))),
      st_a)
   \<and> fst (upload_pdf loader_down at_noon st_a file_b ''k1'') =
       Inl (HTTPException 500 (Str (Upstream ''PyPDFLoader'')))"
  by (simp add: up_defs fix_defs loader_down_def file_txt_def)

subsection \<open>C4: the quota after a day rollover\<close>

text \<open>
  C4 at a key whose counter is one byte over the quota and whose window began ten days
  ago: \<open>check_quota\<close> does not look at \<open>last_reset\<close>, and the reset of
  \<open>update_usage_metrics\<close> is never reached, so the upload is refused and the state,
  counter included, stays as it was.
\<close>

theorem stale_usage_still_blocks_upload:
  "daily_usage entry_over = DAILY_QUOTA + 1
   \<and> timedelta_days 1 < now_compared ten_days_on - last_reset entry_over
   \<and> check_quota st_over ''k1'' = Inl (HTTPException 429 (Text ''Daily quota exceeded''))
   \<and> upload_pdf quiet ten_days_on st_over file_b ''k1'' =
       (Inl (HTTPException 500 (Str (HTTPException 429 (Text ''Daily quota exceeded'')))), st_over)"
  by (simp add: up_defs fix_defs entry_over_def st_over_def ten_days_on_def)

subsection \<open>C5: a query before any upload\<close>

text \<open>
  C5: with no current namespace, \<open>ask_question\<close> raises status 400 inside its
  \<open>try\<close>; its \<open>except Exception\<close> catches that and raises status 500.
\<close>

theorem ask_question_without_document:
  "ask_question c (s\<lparr>CURRENT_NAMESPACE := None\<rparr>) question =
     (Inl (HTTPException 500 (Str (HTTPException 400
        (Text ''No document has been uploaded yet. Please upload a PDF first.'')))),
      s\<lparr>CURRENT_NAMESPACE := None\<rparr>)"
  by (simp add: ask_question_def ask_question_body_def handle_def)

subsection \<open>C6: the namespace transform\<close>

text \<open>
  C6 at the filename \<open>a.pdfx.pdf\<close>: \<open>str.replace\<close> removes both occurrences of
  \<open>.pdf\<close>, where the transform of the specification strips the suffix only.
\<close>

theorem sanitize_namespace_inner_pdf:
  "namespace_of entry_u1 ''a.pdfx.pdf'' = ''u1_ax''
   \<and> spec_namespace ''u1'' ''a.pdfx.pdf'' = ''u1_a_pdfx''"
  by (simp add: ns_defs entry_u1_def suffix_def)

subsection \<open>C7: expiry\<close>




subsection \<open>C8: the quota boundary and the overshoot\<close>

text \<open>
  C8: \<open>check_quota\<close> passes at exactly \<open>DAILY_QUOTA\<close> and raises status 429 at
  \<open>DAILY_QUOTA + 1\<close>. In \<open>upload_pdf\<close> it runs before the bytes are added: an
  upload whose key is within the quota is not refused and its bytes are added, however
  far over the quota that takes the counter; an upload whose key is already over the
  quota is refused with the state unchanged.
\<close>

theorem check_quota_boundary:
  "(api_keys s k = Some entry \<and> daily_usage entry = DAILY_QUOTA \<longrightarrow> check_quota s k = Inr ())
   \<and> (api_keys s k = Some entry \<and> daily_usage entry = DAILY_QUOTA + 1 \<longrightarrow>
        check_quota s k = Inl (HTTPException 429 (Text ''Daily quota exceeded'')))
   \<and> (check_file_size (length (file_content file)) = Inr ()
        \<and> validate_pdf_content c (file_content file) = Inr ()
        \<and> api_keys s k = Some entry \<and> daily_usage entry \<le> DAILY_QUOTA
        \<and> loader c (file_content file) = Inr docs \<and> splitter c docs = Inr split
        \<and> add_raises c = None \<longrightarrow>
        (\<exists>r. fst (upload_pdf c t s file k) = Inr r)
        \<and> map_option daily_usage (api_keys (snd (upload_pdf c t s file k)) k) =
            Some ((if timedelta_days 1 < now_compared t - last_reset entry then 0 else daily_usage entry)
                  + int (length (file_content file))))
   \<and> (check_file_size (length (file_content file)) = Inr ()
        \<and> validate_pdf_content c (file_content file) = Inr ()
        \<and> api_keys s k = Some entry \<and> DAILY_QUOTA < daily_usage entry \<longrightarrow>
        upload_pdf c t s file k =
          (Inl (HTTPException 500 (Str (HTTPException 429 (Text ''Daily quota exceeded'')))), s))"
proof -
  have a: "api_keys s k = Some entry \<and> daily_usage entry = DAILY_QUOTA \<longrightarrow> check_quota s k = Inr ()"
    by (simp add: check_quota_def)
  have b: "api_keys s k = Some entry \<and> daily_usage entry = DAILY_QUOTA + 1 \<longrightarrow>
        check_quota s k = Inl (HTTPException 429 (Text ''Daily quota exceeded''))"
    by (simp add: check_quota_def)
  have c: "(\<exists>r. fst (upload_pdf c t s file k) = Inr r)
        \<and> map_option daily_usage (api_keys (snd (upload_pdf c t s file k)) k) =
            Some ((if timedelta_days 1 < now_compared t - last_reset entry then 0 else daily_usage entry)
                  + int (length (file_content file)))"
    if "check_file_size (length (file_content file)) = Inr ()"
      "validate_pdf_content c (file_content file) = Inr ()"
      "api_keys s k = Some entry" "daily_usage entry \<le> DAILY_QUOTA"
      "loader c (file_content file) = Inr docs" "splitter c docs = Inr split" "add_raises c = None"
    using that(5-7)
    by (simp add: upload_pdf_def upload_pdf_body_admitted [OF that(1-4)] Let_def bump_entry_fields)
  have d: "upload_pdf c t s file k =
          (Inl (HTTPException 500 (Str (HTTPException 429 (Text ''Daily quota exceeded'')))), s)"
    if "check_file_size (length (file_content file)) = Inr ()"
      "validate_pdf_content c (file_content file) = Inr ()"
      "api_keys s k = Some entry" "DAILY_QUOTA < daily_usage entry"
  proof -
    have "check_quota s k = Inl (HTTPException 429 (Text ''Daily quota exceeded''))"
      using that(3,4) by (simp add: check_quota_def)
    then show ?thesis
      by (simp add: upload_pdf_def upload_pdf_body_rejected(3) [OF that(1,2)] handle_def)
  qed
  show ?thesis
    using a b c d by blast
qed

text \<open>
  C8 at a key exactly at the quota (12 more bytes are accepted) and at a key one byte
  over it.
\<close>

theorem check_quota_boundary_witness:
  "api_keys st_full ''k1'' = Some entry_full \<and> daily_usage entry_full = DAILY_QUOTA
   \<and> check_quota st_full ''k1'' = Inr ()
   \<and> api_keys st_over ''k1'' = Some entry_over \<and> daily_usage entry_over = DAILY_QUOTA + 1
   \<and> check_quota st_over ''k1'' = Inl (HTTPException 429 (Text ''Daily quota exceeded''))
   \<and> check_file_size (length (file_content file_b)) = Inr ()
   \<and> validate_pdf_content quiet (file_content file_b) = Inr ()
   \<and> loader quiet (file_content file_b) =
        Inr [\<lparr>page_content = ''%PDF-1.4 sky'', metadata = [''page'' \<mapsto> MInt 0]\<rparr>]
   \<and> splitter quiet [\<lparr>page_content = ''%PDF-1.4 sky'', metadata = [''page'' \<mapsto> MInt 0]\<rparr>] =
        Inr [\<lparr>page_content = ''%PDF-1.4 sky'', metadata = [''page'' \<mapsto> MInt 0]\<rparr>]
   \<and> add_raises quiet = None
   \<and> (\<exists>r. fst (upload_pdf quiet at_noon st_full file_b ''k1'') = Inr r)
   \<and> map_option daily_usage (api_keys (snd (upload_pdf quiet at_noon st_full file_b ''k1'')) ''k1'') =
        Some (DAILY_QUOTA + 12)
   \<and> DAILY_QUOTA < daily_usage entry_over
   \<and> upload_pdf quiet at_noon st_over file_b ''k1'' =
        (Inl (HTTPException 500 (Str (HTTPException 429 (Text ''Daily quota exceeded'')))), st_over)"
proof -
  have k: "api_keys st_full ''k1'' = Some entry_full" "daily_usage entry_full = DAILY_QUOTA"
    "api_keys st_over ''k1'' = Some entry_over" "daily_usage entry_over = DAILY_QUOTA + 1"
    "DAILY_QUOTA < daily_usage entry_over" "daily_usage entry_full \<le> DAILY_QUOTA"
    by (simp_all add: st_full_def entry_full_def st_over_def entry_over_def DAILY_QUOTA_def)
  have p: "check_file_size (length (file_content file_b)) = Inr ()"
    "validate_pdf_content quiet (file_content file_b) = Inr ()"
    by (simp_all add: check_file_size_def validate_pdf_content_def is_pdf_def MAX_FILE_SIZE_def
          MAX_PAGES_def fix_defs)
  have q: "loader quiet (file_content file_b) =
        Inr [\<lparr>page_content = ''%PDF-1.4 sky'', metadata = [''page'' \<mapsto> MInt 0]\<rparr>]"
    "splitter quiet [\<lparr>page_content = ''%PDF-1.4 sky'', metadata = [''page'' \<mapsto> MInt 0]\<rparr>] =
        Inr [\<lparr>page_content = ''%PDF-1.4 sky'', metadata = [''page'' \<mapsto> MInt 0]\<rparr>]"
    "add_raises quiet = None"
    by (simp_all add: quiet_def file_b_def)
  have d: "last_reset entry_full = 0" "now_compared at_noon = 500" "length (file_content file_b) = 12"
    by (simp_all add: entry_full_def at_noon_def file_b_def)
  show ?thesis
    using k p q
      check_quota_boundary [of st_full "''k1''" entry_full file_b quiet
        "[\<lparr>page_content = ''%PDF-1.4 sky'', metadata = [''page'' \<mapsto> MInt 0]\<rparr>]"
        "[\<lparr>page_content = ''%PDF-1.4 sky'', metadata = [''page'' \<mapsto> MInt 0]\<rparr>]" at_noon]
      check_quota_boundary [of st_over "''k1''" entry_over file_b quiet _ _ at_noon]
    by (simp add: d timedelta_days_def)
qed

subsection \<open>C9: a query that retrieves nothing\<close>

text \<open>
  C9: when the similarity search returns no chunk, \<open>ask_question\<close> returns the
  fixed answer and context whatever the LLM collaborator \<open>f\<close> would do, and the
  state, with its count of LLM calls, is unchanged.
\<close>

theorem ask_question_zero_results:
  assumes "CURRENT_NAMESPACE s = Some ns" and "ns \<noteq> []"
    and "similarity_search c (pinecone s) ns question 5 = Inr []"
  shows "ask_question (c\<lparr>llm_invoke := f\<rparr>) s question =
     (Inr \<lparr>answer = ''I don't have enough information in the document to answer this question.'',
           context_out = Some ''No relevant content found in the document.''\<rparr>, s)"
  using assms
  by (simp add: ask_question_def ask_question_body_def fallback_answer_def fallback_context_def)

text \<open>
  C9 with an LLM that would raise: the fallback is returned and no call is counted.
\<close>

theorem ask_question_zero_results_witness:
  "CURRENT_NAMESPACE st_empty_ns = Some ''u1_b'' \<and> ''u1_b'' \<noteq> []
   \<and> similarity_search quiet (pinecone st_empty_ns) ''u1_b'' ''What color is the sky?'' 5 = Inr []
   \<and> ask_question (quiet\<lparr>llm_invoke := llm_down\<rparr>) st_empty_ns ''What color is the sky?'' =
       (Inr \<lparr>answer = ''I don't have enough information in the document to answer this question.'',
             context_out = Some ''No relevant content found in the document.''\<rparr>, st_empty_ns)
   \<and> llm_calls (snd (ask_question (quiet\<lparr>llm_invoke := llm_down\<rparr>) st_empty_ns ''What color is the sky?'')) = 0"
proof -
  have h: "CURRENT_NAMESPACE st_empty_ns = Some ''u1_b''" "''u1_b'' \<noteq> []"
    "similarity_search quiet (pinecone st_empty_ns) ''u1_b'' ''What color is the sky?'' 5 = Inr []"
    by (simp_all add: st_empty_ns_def st_a_def quiet_def)
  have z: "llm_calls st_empty_ns = 0"
    by (simp add: st_empty_ns_def st_a_def)
  show ?thesis
    using h ask_question_zero_results [OF h, of llm_down] by (simp add: z)
qed

subsection \<open>C10: a cached record without expiry\<close>

text \<open>
  C10: a cached record without \<open>expires_at\<close> is accepted at every time a
  \<open>datetime\<close> can hold (none exceeds \<open>datetime.max\<close>); and
  \<open>update_usage_metrics\<close> on a key absent from cache and store creates such a
  record.
\<close>

theorem validate_api_key_without_expiry:
  "(api_keys s k = Some entry \<and> expires_at entry = None \<and> now \<le> datetime_max \<longrightarrow>
      validate_api_key c now s k = Inr (k, s))
   \<and> (api_keys s k = None \<and> db_get_raises c = None \<and> db s k = None \<longrightarrow>
        (\<exists>s'. update_usage_metrics c t s k n = Inr s'
           \<and> map_option expires_at (api_keys s' k) = Some None
           \<and> (now \<le> datetime_max \<longrightarrow> validate_api_key c' now s' k = Inr (k, s'))))"
  by (auto simp: validate_api_key_def update_usage_metrics_def load_entry_def bump_entry_def Let_def)

text \<open>
  C10 on the unknown key \<open>k7\<close>: the created entry has no expiry and validates at
  \<open>datetime.max\<close>.
\<close>

theorem validate_api_key_without_expiry_witness:
  "api_keys st_a ''k7'' = None \<and> db_get_raises quiet = None \<and> db st_a ''k7'' = None
   \<and> update_usage_metrics quiet at_noon st_a ''k7'' 12 = Inr (st_a\<lparr>api_keys := (api_keys st_a)(''k7'' \<mapsto> entry_degraded)\<rparr>)
   \<and> expires_at entry_degraded = None
   \<and> datetime_max \<le> datetime_max
   \<and> validate_api_key quiet datetime_max (st_a\<lparr>api_keys := (api_keys st_a)(''k7'' \<mapsto> entry_degraded)\<rparr>) ''k7'' =
        Inr (''k7'', st_a\<lparr>api_keys := (api_keys st_a)(''k7'' \<mapsto> entry_degraded)\<rparr>)"
proof -
  have h: "api_keys st_a ''k7'' = None" "db_get_raises quiet = None" "db st_a ''k7'' = None"
    by (simp_all add: st_a_def quiet_def)
  have u: "update_usage_metrics quiet at_noon st_a ''k7'' 12 =
      Inr (st_a\<lparr>api_keys := (api_keys st_a)(''k7'' \<mapsto> entry_degraded)\<rparr>)"
    by (simp add: update_usage_metrics_def load_entry_def bump_entry_def write_back_def Let_def
          timedelta_days_def st_a_def quiet_def at_noon_def entry_degraded_def)
  have e: "expires_at entry_degraded = None"
    by (simp add: entry_degraded_def)
  have m: "api_keys (st_a\<lparr>api_keys := (api_keys st_a)(''k7'' \<mapsto> entry_degraded)\<rparr>) ''k7'' = Some entry_degraded"
    by simp
  show ?thesis
    using h u e
      validate_api_key_without_expiry [of "st_a\<lparr>api_keys := (api_keys st_a)(''k7'' \<mapsto> entry_degraded)\<rparr>"
        "''k7''" entry_degraded datetime_max quiet]
      validate_api_key_without_expiry [of st_a "''k7''" _ datetime_max quiet at_noon 12 quiet]
    by (simp add: m)
qed

end
